theory Spec2Isabelle
  imports Main "HOL-Library.Word"
begin

section \<open>rollup-plugin-body-iife: the data model\<close>

text \<open>
  The plugin works on JavaScript strings, which are sequences of 16-bit code units
  (\<^verbatim>\<open>startsWith\<close>, \<^verbatim>\<open>split\<close> and the regular expression \<^verbatim>\<open>/^\s/\<close>,
  which has no \<^verbatim>\<open>u\<close> flag, all work on code units). A string is therefore a list of
  16-bit words. The ASCII literals of the source are written with \<open>str\<close>, which
  reads an Isabelle string literal as the code units of the same characters.
\<close>

type_synonym unit16 = "16 word"
type_synonym jsstring = "unit16 list"

definition str :: "string \<Rightarrow> jsstring" where
  "str s = map (\<lambda>c. of_nat (of_char c)) s"

text \<open>The line feed, \<^verbatim>\<open>"\n"\<close> in the source.\<close>

definition LF :: unit16 where
  "LF = 0x0A"

subsection \<open>The library operations the source calls\<close>

text \<open>
  \<^verbatim>\<open>String.prototype.startsWith(searchString)\<close> with no position argument.
\<close>

fun startsWith :: "jsstring \<Rightarrow> jsstring \<Rightarrow> bool" where
  "startsWith s [] = True"
| "startsWith [] (p # ps) = False"
| "startsWith (c # cs) (p # ps) = (c = p \<and> startsWith cs ps)"

text \<open>
  \<^verbatim>\<open>code.split("\n")\<close>: the pieces between the occurrences of the separator. The
  result is never empty: the empty string gives one empty piece, and a string that
  ends with the separator gives a last empty piece.
\<close>

fun split_lines :: "jsstring \<Rightarrow> jsstring list" where
  "split_lines [] = [[]]"
| "split_lines (c # cs) =
     (if c = LF then [] # split_lines cs
      else (case split_lines cs of
              [] \<Rightarrow> [[c]]
            | l # ls \<Rightarrow> (c # l) # ls))"

text \<open>
  \<^verbatim>\<open>Array.prototype.join(separator)\<close>: the elements with the separator between
  them; the empty array gives the empty string.
\<close>

fun join :: "jsstring \<Rightarrow> jsstring list \<Rightarrow> jsstring" where
  "join sep [] = []"
| "join sep [l] = l"
| "join sep (l # ls) = l @ sep @ join sep ls"

text \<open>
  \<^verbatim>\<open>Array.prototype.findIndex(predicate)\<close>: the index of the first element that
  satisfies the predicate, and \<open>-1\<close> when there is none. \<open>findIndexFrom\<close> is the
  loop, with its counter.
\<close>

fun findIndexFrom :: "('a \<Rightarrow> bool) \<Rightarrow> 'a list \<Rightarrow> int \<Rightarrow> int" where
  "findIndexFrom P [] i = -1"
| "findIndexFrom P (x # xs) i = (if P x then i else findIndexFrom P xs (i + 1))"

definition findIndex :: "('a \<Rightarrow> bool) \<Rightarrow> 'a list \<Rightarrow> int" where
  "findIndex P xs = findIndexFrom P xs 0"

text \<open>
  \<^verbatim>\<open>Array.prototype.slice(start, end)\<close>. A negative index counts from the end of
  the array; either index is then clamped to the range from 0 to the length. With
  one argument the end is the length. \<open>slice_arr\<close> is the call with two arguments
  and \<open>slice_from\<close> the call with one.
\<close>

definition relativeIndex :: "int \<Rightarrow> nat \<Rightarrow> nat" where
  "relativeIndex i len =
     (if i < 0 then nat (max (int len + i) 0) else min (nat i) len)"

definition slice_arr :: "'a list \<Rightarrow> int \<Rightarrow> int \<Rightarrow> 'a list" where
  "slice_arr xs start end =
     (let k = relativeIndex start (length xs);
          final = relativeIndex end (length xs)
      in take (final - k) (drop k xs))"

definition slice_from :: "'a list \<Rightarrow> int \<Rightarrow> 'a list" where
  "slice_from xs start = slice_arr xs start (int (length xs))"

text \<open>\<^verbatim>\<open>Array.prototype.some(predicate)\<close>.\<close>

definition some :: "('a \<Rightarrow> bool) \<Rightarrow> 'a list \<Rightarrow> bool" where
  "some P xs = list_ex P xs"

text \<open>
  The character class \<^verbatim>\<open>\s\<close> of a regular expression: the code units of the
  WhiteSpace and LineTerminator productions of ECMAScript (tab, line feed, vertical
  tab, form feed, carriage return, space, no-break space, the Unicode space
  separators, the line and paragraph separators and the byte order mark).
\<close>

definition isWhiteSpace :: "unit16 \<Rightarrow> bool" where
  "isWhiteSpace c =
     (c = 0x0009 \<or> c = 0x000A \<or> c = 0x000B \<or> c = 0x000C \<or> c = 0x000D \<or>
      c = 0x0020 \<or> c = 0x00A0 \<or> c = 0x1680 \<or> (0x2000 \<le> c \<and> c \<le> 0x200A) \<or>
      c = 0x2028 \<or> c = 0x2029 \<or> c = 0x202F \<or> c = 0x205F \<or> c = 0x3000 \<or>
      c = 0xFEFF)"

text \<open>\<^verbatim>\<open>/^\s/.test(line)\<close>: the line has a first code unit and it is in \<^verbatim>\<open>\s\<close>.\<close>

definition testLeadingSpace :: "jsstring \<Rightarrow> bool" where
  "testLeadingSpace line = (case line of [] \<Rightarrow> False | c # _ \<Rightarrow> isWhiteSpace c)"

section \<open>The plugin\<close>

text \<open>
  \<^verbatim>\<open>ImportInBodyError\<close> carries the line number it was constructed with; its message
  is built from that number alone. Line numbers are array indices and their sums, so
  they are integers.
\<close>

datatype error = ImportInBodyError (lineNumber: int)

definition isImportStatementStart :: "jsstring \<Rightarrow> bool" where
  "isImportStatementStart line = startsWith line (str ''import '')"

definition couldBeImportBlockLine :: "jsstring \<Rightarrow> bool" where
  "couldBeImportBlockLine line =
     (line = [] \<or>
      startsWith line (str ''//'') \<or>
      startsWith line (str ''/*'') \<or>
      isImportStatementStart line \<or>
      startsWith line (str ''}'') \<or>
      testLeadingSpace line)"

text \<open>
  The local values of \<^verbatim>\<open>splitSource\<close>: \<^verbatim>\<open>bodyStart\<close>, \<^verbatim>\<open>body\<close> and the
  first argument of the final \<^verbatim>\<open>join\<close>, the lines of the import region.
\<close>

definition bodyStart :: "jsstring \<Rightarrow> int" where
  "bodyStart code = findIndex (\<lambda>line. \<not> couldBeImportBlockLine line) (split_lines code)"

definition bodyLines :: "jsstring \<Rightarrow> jsstring list" where
  "bodyLines code = slice_from (split_lines code) (bodyStart code)"

definition importLines :: "jsstring \<Rightarrow> jsstring list" where
  "importLines code = slice_arr (split_lines code) 0 (bodyStart code)"

definition splitSource :: "jsstring \<Rightarrow> error + (jsstring \<times> jsstring)" where
  "splitSource code =
     (let lines = split_lines code;
          bodyStart = findIndex (\<lambda>line. \<not> couldBeImportBlockLine line) lines;
          body = slice_from lines bodyStart
      in if some isImportStatementStart body
         then Inl (ImportInBodyError (bodyStart + findIndex isImportStatementStart body))
         else Inr (join [LF] (slice_arr lines 0 bodyStart), join [LF] body))"

definition wrapInIife :: "jsstring \<Rightarrow> jsstring" where
  "wrapInIife code = str ''(function() {'' @ [LF] @ code @ [LF] @ str ''})();'' @ [LF]"

text \<open>
  \<^verbatim>\<open>transform\<close>. The filter is built by \<^verbatim>\<open>createFilter\<close> of
  \<^verbatim>\<open>@rollup/pluginutils\<close> from the options; it is a parameter here. The result
  \<open>Inr None\<close> is the \<^verbatim>\<open>undefined\<close> of the bare \<^verbatim>\<open>return\<close>, and \<open>Inl\<close> is the
  exception of \<^verbatim>\<open>splitSource\<close>, which \<^verbatim>\<open>transform\<close> does not catch. The parameters
  \<^verbatim>\<open>filter\<close> and \<^verbatim>\<open>id\<close> of the source are \<open>fileFilter\<close> and \<open>fileId\<close>.
\<close>

definition transform :: "(jsstring \<Rightarrow> bool) \<Rightarrow> jsstring \<Rightarrow> jsstring \<Rightarrow> error + jsstring option" where
  "transform fileFilter code fileId =
     (if \<not> fileFilter fileId then Inr None
      else (case splitSource code of
              Inl e \<Rightarrow> Inl e
            | Inr (imports, body) \<Rightarrow> Inr (Some (join [LF] [imports, wrapInIife body]))))"

section \<open>The regions as the specification defines them\<close>

text \<open>
  These two definitions follow the words of the specification (its sections 3 and
  4.1), not the source, so that the source can be compared with them. The Region
  Boundary is the index of the first line for which the predicate is false, and the
  total line count if there is no such line. The Body Region is the lines with an
  index greater than or equal to the Region Boundary.
\<close>

definition spec_regionBoundary :: "jsstring \<Rightarrow> nat" where
  "spec_regionBoundary code = length (takeWhile couldBeImportBlockLine (split_lines code))"

definition spec_bodyRegion :: "jsstring \<Rightarrow> jsstring list" where
  "spec_bodyRegion code = drop (spec_regionBoundary code) (split_lines code)"

section \<open>Facts about the library operations\<close>

lemma split_lines_not_Nil: "split_lines s \<noteq> []"
  by (induction s) (auto split: list.splits)

lemma join_Cons: "ls \<noteq> [] \<Longrightarrow> join sep (l # ls) = l @ sep @ join sep ls"
  by (cases ls) simp_all

lemma join_split_lines: "join [LF] (split_lines s) = s"
proof (induction s)
  case Nil
  show ?case by simp
next
  case (Cons c cs)
  obtain l ls where ls: "split_lines cs = l # ls"
    using split_lines_not_Nil [of cs] by (cases "split_lines cs") auto
  show ?case
  proof (cases "c = LF")
    case True
    then show ?thesis using Cons.IH ls by (simp add: join_Cons)
  next
    case False
    then show ?thesis using Cons.IH ls by (cases ls) auto
  qed
qed

lemma join_append:
  "xs \<noteq> [] \<Longrightarrow> ys \<noteq> [] \<Longrightarrow> join sep (xs @ ys) = join sep xs @ sep @ join sep ys"
proof (induction xs)
  case Nil
  then show ?case by simp
next
  case (Cons x xs)
  show ?case
  proof (cases "xs = []")
    case True
    then show ?thesis using Cons.prems by (simp add: join_Cons)
  next
    case False
    then show ?thesis using Cons by (simp add: join_Cons)
  qed
qed

lemma findIndexFrom_none: "(\<forall>x\<in>set xs. \<not> P x) \<Longrightarrow> findIndexFrom P xs i = -1"
  by (induction xs arbitrary: i) auto

lemma findIndexFrom_some:
  "\<exists>x\<in>set xs. P x \<Longrightarrow> findIndexFrom P xs i = i + int (length (takeWhile (\<lambda>x. \<not> P x) xs))"
proof (induction xs arbitrary: i)
  case Nil
  then show ?case by simp
next
  case (Cons a xs)
  show ?case
  proof (cases "P a")
    case True
    then show ?thesis by simp
  next
    case False
    with Cons.prems have "\<exists>x\<in>set xs. P x" by auto
    from Cons.IH [OF this, of "i + 1"] False show ?thesis by simp
  qed
qed

lemma length_takeWhile_less: "\<exists>x\<in>set xs. \<not> Q x \<Longrightarrow> length (takeWhile Q xs) < length xs"
  by (induction xs) auto

lemma findIndex_none: "(\<forall>x\<in>set xs. \<not> P x) \<Longrightarrow> findIndex P xs = -1"
  by (simp add: findIndex_def findIndexFrom_none)

lemma findIndex_some:
  "\<exists>x\<in>set xs. P x \<Longrightarrow> findIndex P xs = int (length (takeWhile (\<lambda>x. \<not> P x) xs))"
  by (simp add: findIndex_def findIndexFrom_some)

lemma findIndex_nonneg_iff: "0 \<le> findIndex P xs \<longleftrightarrow> (\<exists>x\<in>set xs. P x)"
proof (cases "\<exists>x\<in>set xs. P x")
  case True
  then show ?thesis by (simp add: findIndex_some)
next
  case False
  then show ?thesis by (simp add: findIndex_none)
qed

lemma findIndex_less_length: "findIndex P xs < int (length xs)"
proof (cases "\<exists>x\<in>set xs. P x")
  case True
  then have "length (takeWhile (\<lambda>x. \<not> P x) xs) < length xs"
    by (simp add: length_takeWhile_less)
  with True show ?thesis by (simp add: findIndex_some)
next
  case False
  then show ?thesis by (simp add: findIndex_none)
qed

lemma slice_zero_nonneg: "0 \<le> b \<Longrightarrow> slice_arr xs 0 b = take (nat b) xs"
  by (auto simp: slice_arr_def relativeIndex_def Let_def min_def)

lemma slice_from_nonneg: "0 \<le> b \<Longrightarrow> slice_from xs b = drop (nat b) xs"
  by (auto simp: slice_from_def slice_arr_def relativeIndex_def Let_def min_def)

lemma slice_zero_minus_one: "slice_arr xs 0 (-1) = butlast xs"
proof -
  have "nat (int (length xs) - 1) = length xs - 1" by simp
  then show ?thesis
    by (simp add: slice_arr_def relativeIndex_def Let_def butlast_conv_take max_def)
qed

lemma slice_from_minus_one: "xs \<noteq> [] \<Longrightarrow> slice_from xs (-1) = [last xs]"
  by (induction xs rule: rev_induct)  (auto simp: slice_from_def slice_arr_def relativeIndex_def Let_def)

lemma startsWith_iff: "startsWith s p \<longleftrightarrow> (\<exists>r. s = p @ r)"
  by (induction s p rule: startsWith.induct) auto

lemma length_takeWhile_first:
  "i < length xs \<Longrightarrow> \<not> Q (xs ! i) \<Longrightarrow> \<forall>j<i. Q (xs ! j) \<Longrightarrow> length (takeWhile Q xs) = i"
proof (induction xs arbitrary: i)
  case Nil
  then show ?case by simp
next
  case (Cons a xs)
  show ?case
  proof (cases i)
    case 0
    with Cons.prems show ?thesis by simp
  next
    case (Suc k)
    with Cons.prems have "Q a" by auto
    moreover have "length (takeWhile Q xs) = k"
      using Cons.prems Suc by (intro Cons.IH) auto
    ultimately show ?thesis using Suc by simp
  qed
qed

lemma set_slice_arr: "set (slice_arr xs a b) \<subseteq> set xs"
  by (auto simp: slice_arr_def Let_def dest: in_set_takeD in_set_dropD)

lemma set_slice_from: "set (slice_from xs a) \<subseteq> set xs"
  by (simp add: slice_from_def set_slice_arr)

section \<open>Facts about the plugin\<close>

lemma splitSource_unfold:
  "splitSource code =
     (if some isImportStatementStart (bodyLines code)
      then Inl (ImportInBodyError
                  (bodyStart code + findIndex isImportStatementStart (bodyLines code)))
      else Inr (join [LF] (importLines code), join [LF] (bodyLines code)))"
  by (simp add: splitSource_def bodyStart_def bodyLines_def importLines_def Let_def)

lemma bodyStart_found:
  "\<exists>l\<in>set (split_lines code). \<not> couldBeImportBlockLine l \<Longrightarrow>
   bodyStart code = int (length (takeWhile couldBeImportBlockLine (split_lines code)))"
  by (simp add: bodyStart_def findIndex_some)

lemma bodyStart_none:
  "\<forall>l\<in>set (split_lines code). couldBeImportBlockLine l \<Longrightarrow> bodyStart code = -1"
  by (simp add: bodyStart_def findIndex_none)

lemma bodyStart_nonneg_iff:
  "0 \<le> bodyStart code \<longleftrightarrow> (\<exists>l\<in>set (split_lines code). \<not> couldBeImportBlockLine l)"
  by (simp add: bodyStart_def findIndex_nonneg_iff)

lemma bodyStart_less: "bodyStart code < int (length (split_lines code))"
  by (simp add: bodyStart_def findIndex_less_length)

lemma importLines_found:
  "0 \<le> bodyStart code \<Longrightarrow> importLines code = take (nat (bodyStart code)) (split_lines code)"
  by (simp add: importLines_def slice_zero_nonneg)

lemma bodyLines_found:
  "0 \<le> bodyStart code \<Longrightarrow> bodyLines code = drop (nat (bodyStart code)) (split_lines code)"
  by (simp add: bodyLines_def slice_from_nonneg)

lemma importLines_none:
  "bodyStart code = -1 \<Longrightarrow> importLines code = butlast (split_lines code)"
  by (simp add: importLines_def slice_zero_minus_one)

lemma bodyLines_none:
  "bodyStart code = -1 \<Longrightarrow> bodyLines code = [last (split_lines code)]"
  by (simp add: bodyLines_def slice_from_minus_one split_lines_not_Nil)

text \<open>The equations that evaluate the plugin on a concrete text.\<close>

lemmas eval_defs =
  splitSource_def bodyStart_def bodyLines_def importLines_def transform_def wrapInIife_def
  couldBeImportBlockLine_def isImportStatementStart_def testLeadingSpace_def isWhiteSpace_def
  some_def findIndex_def slice_from_def slice_arr_def relativeIndex_def str_def LF_def

lemma region_lines_partition: "importLines code @ bodyLines code = split_lines code"
proof (cases "0 \<le> bodyStart code")
  case True
  then show ?thesis by (simp add: importLines_found bodyLines_found)
next
  case False
  then have "bodyStart code = -1"
    by (simp add: bodyStart_nonneg_iff bodyStart_none)
  then show ?thesis
    by (simp add: importLines_none bodyLines_none split_lines_not_Nil)
qed

text \<open>
  Where the boundary is the index of a line, the number an \<^verbatim>\<open>ImportInBodyError\<close>
  carries is the index, in the input, of the first line from the boundary on that
  starts with \<^verbatim>\<open>import \<close>.
\<close>

lemma line_number_found:
  assumes "splitSource code = Inl e" and "0 \<le> bodyStart code"
  shows "\<exists>n. lineNumber e = int n \<and> nat (bodyStart code) \<le> n \<and>
             n < length (split_lines code) \<and>
             isImportStatementStart (split_lines code ! n) \<and>
             (\<forall>j. nat (bodyStart code) \<le> j \<and> j < n \<longrightarrow>
                  \<not> isImportStatementStart (split_lines code ! j))"
proof -
  let ?b = "nat (bodyStart code)"
  let ?ls = "split_lines code"
  let ?body = "drop ?b ?ls"
  let ?k = "length (takeWhile (\<lambda>l. \<not> isImportStatementStart l) ?body)"
  have body: "bodyLines code = ?body"
    using assms(2) by (rule bodyLines_found)
  have ex: "\<exists>l\<in>set ?body. isImportStatementStart l"
    and e: "e = ImportInBodyError (bodyStart code + findIndex isImportStatementStart ?body)"
    using assms(1) by (auto simp: splitSource_unfold body some_def list_ex_iff split: if_splits)
  have idx: "findIndex isImportStatementStart ?body = int ?k"
    using ex by (rule findIndex_some)
  have k: "?k < length ?body"
    by (rule length_takeWhile_less) (simp add: ex)
  have hit: "isImportStatementStart (?body ! ?k)"
    using nth_length_takeWhile [OF k] by simp
  have before: "\<not> isImportStatementStart (?body ! i)" if "i < ?k" for i
  proof -
    from that have "takeWhile (\<lambda>l. \<not> isImportStatementStart l) ?body ! i = ?body ! i"
      by (rule takeWhile_nth)
    moreover from that
    have "takeWhile (\<lambda>l. \<not> isImportStatementStart l) ?body ! i
            \<in> set (takeWhile (\<lambda>l. \<not> isImportStatementStart l) ?body)"
      by (rule nth_mem)
    ultimately show ?thesis by (auto dest: set_takeWhileD)
  qed
  have b: "?b \<le> length ?ls" using k by simp
  have "lineNumber e = int (?b + ?k)"
    using e idx assms(2) by simp
  moreover have "?b + ?k < length ?ls" using k by simp
  moreover have "isImportStatementStart (?ls ! (?b + ?k))"
    using hit b by simp
  moreover have "\<not> isImportStatementStart (?ls ! j)" if "?b \<le> j \<and> j < ?b + ?k" for j
  proof -
    from that have "j - ?b < ?k" by arith
    from before [OF this] that b show ?thesis by simp
  qed
  ultimately show ?thesis by (intro exI [of _ "?b + ?k"]) simp
qed

text \<open>Scenario B of the specification.\<close>

lemma line_number_scenario_B:
  "splitSource (str ''g();'' @ [LF] @ str ''import { f } from \"x\";'') = Inl (ImportInBodyError 1)"
  by (simp add: eval_defs)

section \<open>The region splitter\<close>

text \<open>
  C1, as the specification states it: for every input, the import region, a newline and
  the body region put together give the input back. It fails where the import region
  has no line: \<^verbatim>\<open>join\<close> of no lines is the empty text, as \<^verbatim>\<open>join\<close> of one empty line
  is, so for the input \<^verbatim>\<open>g();\<close> the three pieces put together are the input with a
  newline before it.
\<close>

theorem split_reconstructs_counterexample:
  "splitSource (str ''g();'') = Inr ([], str ''g();'') \<and>
   [] @ [LF] @ str ''g();'' \<noteq> str ''g();''"
  by (simp add: eval_defs)

text \<open>
  C1, amended: whenever \<^verbatim>\<open>splitSource\<close> returns and the boundary is the index of a line
  (some line fails the predicate), the lines of the import region followed by the lines
  of the body region are the lines of the input, in order; if the boundary is at least
  1, the import region, a newline and the body region give the input back exactly; if
  the boundary is 0, the import region is the empty text, the body region is the whole
  input, and the three pieces together are the input with one newline before it.
\<close>

theorem split_reconstructs:
  assumes "splitSource code = Inr (imports, body)" and "0 \<le> bodyStart code"
  shows "importLines code @ bodyLines code = split_lines code \<and>
         (0 < bodyStart code \<longrightarrow> imports @ [LF] @ body = code) \<and>
         (bodyStart code = 0 \<longrightarrow>
            imports = [] \<and> body = code \<and> imports @ [LF] @ body = LF # code)"
proof -
  let ?n = "nat (bodyStart code)"
  let ?ls = "split_lines code"
  have imp_eq: "imports = join [LF] (take ?n ?ls)"
    and body_eq: "body = join [LF] (drop ?n ?ls)"
    using assms by (auto simp: splitSource_unfold importLines_found bodyLines_found split: if_splits)
  have n: "?n < length ?ls"
    using bodyStart_less [of code] assms(2) by simp
  then have drop: "drop ?n ?ls \<noteq> []" by simp
  have lines: "importLines code @ bodyLines code = ?ls"
    using assms(2) by (simp add: importLines_found bodyLines_found)
  have pos: "imports @ [LF] @ body = code" if "0 < bodyStart code"
  proof -
    from that n have "take ?n ?ls \<noteq> []" by auto
    from join_append [OF this drop, of "[LF]"]
    have "join [LF] (take ?n ?ls @ drop ?n ?ls) = imports @ [LF] @ body"
      by (simp only: imp_eq body_eq)
    then show ?thesis by (simp add: join_split_lines)
  qed
  have zero: "imports = [] \<and> body = code \<and> imports @ [LF] @ body = LF # code"
    if "bodyStart code = 0"
    using that imp_eq body_eq by (simp add: join_split_lines)
  from lines pos zero show ?thesis by blast
qed

theorem split_reconstructs_witness:
  "splitSource (str ''// c'' @ [LF] @ str ''g();'') = Inr (str ''// c'', str ''g();'') \<and>
   0 < bodyStart (str ''// c'' @ [LF] @ str ''g();'') \<and>
   str ''// c'' @ [LF] @ str ''g();'' = str ''// c'' @ [LF] @ str ''g();'' \<and>
   splitSource (str ''g();'') = Inr ([], str ''g();'') \<and>
   bodyStart (str ''g();'') = 0 \<and>
   [] @ [LF] @ str ''g();'' = LF # str ''g();''"
proof -
  have a: "splitSource (str ''// c'' @ [LF] @ str ''g();'') = Inr (str ''// c'', str ''g();'')"
    by (simp add: eval_defs)
  have b: "0 < bodyStart (str ''// c'' @ [LF] @ str ''g();'')"
    by (simp add: eval_defs)
  have c: "splitSource (str ''g();'') = Inr ([], str ''g();'')"
    by (simp add: eval_defs)
  have d: "bodyStart (str ''g();'') = 0"
    by (simp add: eval_defs)
  from split_reconstructs [OF a] b split_reconstructs [OF c] d a c show ?thesis
    by simp
qed

text \<open>
  C2: for an input in which every line satisfies the predicate, the specification has the
  whole input as the import region and an empty body region. The code does not: there
  \<^verbatim>\<open>findIndex\<close> gives \<open>-1\<close>, \<^verbatim>\<open>lines.slice(-1)\<close> is the last line, and the body
  region is that line. For the input \<^verbatim>\<open>import { f } from "x";\<close>, a file that is one
  import statement, the guard then finds the import in the body and the call raises
  \<^verbatim>\<open>ImportInBodyError\<close> with line number \<open>-1\<close>.
\<close>

theorem all_import_lines_raises:
  "list_all couldBeImportBlockLine (split_lines (str ''import { f } from \"x\";'')) \<and>
   length (split_lines (str ''import { f } from \"x\";'')) = 1 \<and>
   bodyStart (str ''import { f } from \"x\";'') = -1 \<and>
   bodyLines (str ''import { f } from \"x\";'') = [str ''import { f } from \"x\";''] \<and>
   splitSource (str ''import { f } from \"x\";'') = Inl (ImportInBodyError (-1))"
  by (simp add: eval_defs)

text \<open>
  C6: a line satisfies \<^verbatim>\<open>couldBeImportBlockLine\<close> if and only if it is empty, or starts
  with \<^verbatim>\<open>//\<close>, with \<^verbatim>\<open>/*\<close>, with \<^verbatim>\<open>import \<close> (the space included), with \<^verbatim>\<open>}\<close>,
  or with a whitespace code unit; and the boundary \<^verbatim>\<open>bodyStart\<close> is the index of the
  first line that does not satisfy it.
\<close>

theorem couldBeImportBlockLine_iff:
  "(couldBeImportBlockLine line \<longleftrightarrow>
      line = [] \<or>
      (\<exists>rest. line = str ''//'' @ rest) \<or>
      (\<exists>rest. line = str ''/*'' @ rest) \<or>
      (\<exists>rest. line = str ''import '' @ rest) \<or>
      (\<exists>rest. line = str ''}'' @ rest) \<or>
      (\<exists>c rest. line = c # rest \<and> isWhiteSpace c)) \<and>
   (\<forall>i. i < length (split_lines code) \<and>
        \<not> couldBeImportBlockLine (split_lines code ! i) \<and>
        (\<forall>j<i. couldBeImportBlockLine (split_lines code ! j))
        \<longrightarrow> bodyStart code = int i)"
proof -
  have pred: "couldBeImportBlockLine line \<longleftrightarrow>
      line = [] \<or>
      (\<exists>rest. line = str ''//'' @ rest) \<or>
      (\<exists>rest. line = str ''/*'' @ rest) \<or>
      (\<exists>rest. line = str ''import '' @ rest) \<or>
      (\<exists>rest. line = str ''}'' @ rest) \<or>
      (\<exists>c rest. line = c # rest \<and> isWhiteSpace c)"
    unfolding couldBeImportBlockLine_def isImportStatementStart_def testLeadingSpace_def
      startsWith_iff
    by (cases line) simp_all
  have first: "bodyStart code = int i"
    if "i < length (split_lines code) \<and>
        \<not> couldBeImportBlockLine (split_lines code ! i) \<and>
        (\<forall>j<i. couldBeImportBlockLine (split_lines code ! j))" for i
  proof -
    from that have "\<exists>l\<in>set (split_lines code). \<not> couldBeImportBlockLine l"
      using nth_mem by blast
    then have "bodyStart code =
        int (length (takeWhile couldBeImportBlockLine (split_lines code)))"
      by (rule bodyStart_found)
    also have "length (takeWhile couldBeImportBlockLine (split_lines code)) = i"
      using that by (intro length_takeWhile_first) simp_all
    finally show ?thesis .
  qed
  from pred first show ?thesis by blast
qed

theorem couldBeImportBlockLine_iff_witness:
  "(1::nat) < length (split_lines (str ''// c'' @ [LF] @ str ''g();'')) \<and>
   \<not> couldBeImportBlockLine (split_lines (str ''// c'' @ [LF] @ str ''g();'') ! 1) \<and>
   couldBeImportBlockLine (split_lines (str ''// c'' @ [LF] @ str ''g();'') ! 0) \<and>
   bodyStart (str ''// c'' @ [LF] @ str ''g();'') = 1"
proof -
  have ls: "split_lines (str ''// c'' @ [LF] @ str ''g();'') = [str ''// c'', str ''g();'']"
    by (simp add: str_def LF_def)
  have a: "(1::nat) < length (split_lines (str ''// c'' @ [LF] @ str ''g();''))"
    unfolding ls by simp
  have b: "\<not> couldBeImportBlockLine (split_lines (str ''// c'' @ [LF] @ str ''g();'') ! 1)"
    unfolding ls by (simp add: eval_defs)
  have c: "\<forall>j<1. couldBeImportBlockLine (split_lines (str ''// c'' @ [LF] @ str ''g();'') ! j)"
    unfolding ls by (simp add: eval_defs)
  have d: "couldBeImportBlockLine (split_lines (str ''// c'' @ [LF] @ str ''g();'') ! 0)"
    using c by simp
  from couldBeImportBlockLine_iff [of "[]" "str ''// c'' @ [LF] @ str ''g();''"] a b c
  have "bodyStart (str ''// c'' @ [LF] @ str ''g();'') = int 1"
    by blast
  with a b d show ?thesis by simp
qed

text \<open>
  C9, scenario C: for the five lines \<^verbatim>\<open>import {\<close>, \<^verbatim>\<open>  a,\<close>, \<^verbatim>\<open>  b\<close>,
  \<^verbatim>\<open>} from "x";\<close>, \<^verbatim>\<open>body();\<close> the boundary is 4, the import region is the first
  four lines, the body region is \<^verbatim>\<open>body();\<close>, and no error is raised.
\<close>

theorem scenario_C:
  "split_lines (str ''import {'' @ [LF] @ str ''  a,'' @ [LF] @ str ''  b'' @ [LF] @
                str ''} from \"x\";'' @ [LF] @ str ''body();'') =
     [str ''import {'', str ''  a,'', str ''  b'', str ''} from \"x\";'', str ''body();''] \<and>
   bodyStart (str ''import {'' @ [LF] @ str ''  a,'' @ [LF] @ str ''  b'' @ [LF] @
              str ''} from \"x\";'' @ [LF] @ str ''body();'') = 4 \<and>
   importLines (str ''import {'' @ [LF] @ str ''  a,'' @ [LF] @ str ''  b'' @ [LF] @
                str ''} from \"x\";'' @ [LF] @ str ''body();'') =
     [str ''import {'', str ''  a,'', str ''  b'', str ''} from \"x\";''] \<and>
   bodyLines (str ''import {'' @ [LF] @ str ''  a,'' @ [LF] @ str ''  b'' @ [LF] @
              str ''} from \"x\";'' @ [LF] @ str ''body();'') = [str ''body();''] \<and>
   splitSource (str ''import {'' @ [LF] @ str ''  a,'' @ [LF] @ str ''  b'' @ [LF] @
                str ''} from \"x\";'' @ [LF] @ str ''body();'') =
     Inr (str ''import {'' @ [LF] @ str ''  a,'' @ [LF] @ str ''  b'' @ [LF] @
          str ''} from \"x\";'', str ''body();'')"
  by (simp add: eval_defs)

section \<open>The guard\<close>

text \<open>
  Where some line fails the predicate, the \<^verbatim>\<open>bodyStart\<close> and the \<^verbatim>\<open>body\<close> of the
  source are the Region Boundary and the Body Region of the specification. Where
  every line satisfies it, the Body Region of the specification is empty.
\<close>

lemma bodyStart_spec:
  "0 \<le> bodyStart code \<Longrightarrow> bodyStart code = int (spec_regionBoundary code)"
  by (simp add: bodyStart_nonneg_iff bodyStart_found spec_regionBoundary_def)

lemma bodyLines_spec:
  "0 \<le> bodyStart code \<Longrightarrow> bodyLines code = spec_bodyRegion code"
  by (simp add: bodyLines_found bodyStart_spec spec_bodyRegion_def)

lemma spec_bodyRegion_none:
  assumes "bodyStart code = -1"
  shows "spec_bodyRegion code = []"
proof -
  from assms have "\<not> 0 \<le> bodyStart code" by simp
  then have "\<forall>l\<in>set (split_lines code). couldBeImportBlockLine l"
    by (simp add: bodyStart_nonneg_iff)
  then have all: "takeWhile couldBeImportBlockLine (split_lines code) = split_lines code"
    by (simp only: takeWhile_eq_all_conv)
  show ?thesis
    unfolding spec_bodyRegion_def spec_regionBoundary_def all by simp
qed

text \<open>
  Where some line fails the predicate, the guard is as the specification has it: the
  error is raised if and only if some line of the Body Region starts with
  \<^verbatim>\<open>import \<close>, and otherwise the joined Body Region is what \<^verbatim>\<open>splitSource\<close> returns
  and what \<^verbatim>\<open>transform\<close> hands to \<^verbatim>\<open>wrapInIife\<close>.
\<close>

lemma guard_raises_iff_found:
  assumes "0 \<le> bodyStart code"
  shows "((\<exists>e. splitSource code = Inl e) \<longleftrightarrow>
            (\<exists>l\<in>set (spec_bodyRegion code). \<exists>rest. l = str ''import '' @ rest)) \<and>
         (\<not> (\<exists>l\<in>set (spec_bodyRegion code). \<exists>rest. l = str ''import '' @ rest) \<longrightarrow>
            splitSource code =
              Inr (join [LF] (importLines code), join [LF] (spec_bodyRegion code)) \<and>
            (fileFilter fileId \<longrightarrow>
               transform fileFilter code fileId =
                 Inr (Some (join [LF] (importLines code) @ [LF] @
                            wrapInIife (join [LF] (spec_bodyRegion code))))))"
proof -
  have body: "bodyLines code = spec_bodyRegion code"
    using assms by (rule bodyLines_spec)
  have "some isImportStatementStart (spec_bodyRegion code) \<longleftrightarrow>
        (\<exists>l\<in>set (spec_bodyRegion code). \<exists>rest. l = str ''import '' @ rest)"
    by (simp add: some_def list_ex_iff isImportStatementStart_def startsWith_iff)
  then show ?thesis
    by (auto simp: splitSource_unfold body transform_def)
qed

text \<open>
  Where every line satisfies the predicate, the guard scans the last line of the input,
  and raises if that line starts with \<^verbatim>\<open>import \<close>, over an empty Body Region.
\<close>

lemma guard_raises_last_line:
  assumes "bodyStart code = -1" and "isImportStatementStart (last (split_lines code))"
  shows "spec_bodyRegion code = [] \<and> splitSource code = Inl (ImportInBodyError (-1))"
proof -
  have "bodyLines code = [last (split_lines code)]"
    using assms(1) by (rule bodyLines_none)
  then have "splitSource code = Inl (ImportInBodyError (-1))"
    using assms by (simp add: splitSource_unfold some_def findIndex_def)
  with spec_bodyRegion_none [OF assms(1)] show ?thesis by simp
qed

text \<open>
  C3: the error is to be raised if and only if some line of the Body Region starts with
  \<^verbatim>\<open>import \<close>. For the input \<^verbatim>\<open>import { f } from "x";\<close> the one line satisfies the
  predicate, so the Region Boundary is the line count, 1, and the Body Region is
  empty: no line of it starts with \<^verbatim>\<open>import \<close>. The code raises the error all the
  same: \<^verbatim>\<open>findIndex\<close> gives \<open>-1\<close> and the guard scans \<^verbatim>\<open>lines.slice(-1)\<close>, the last
  line. For \<^verbatim>\<open>// a\<close>, \<^verbatim>\<open>// b\<close> no error is raised, and the text handed on as the
  body is \<^verbatim>\<open>// b\<close>, not the empty Body Region.
\<close>

theorem guard_raises_on_empty_body_region:
  "spec_regionBoundary (str ''import { f } from \"x\";'') = 1 \<and>
   spec_bodyRegion (str ''import { f } from \"x\";'') = [] \<and>
   \<not> list_ex isImportStatementStart (spec_bodyRegion (str ''import { f } from \"x\";'')) \<and>
   (\<exists>e. splitSource (str ''import { f } from \"x\";'') = Inl e) \<and>
   spec_bodyRegion (str ''// a'' @ [LF] @ str ''// b'') = [] \<and>
   splitSource (str ''// a'' @ [LF] @ str ''// b'') = Inr (str ''// a'', str ''// b'')"
  by (simp add: eval_defs spec_regionBoundary_def spec_bodyRegion_def)

text \<open>
  C4: the line number of the error is to be the 0-based index of the offending line in
  the input. For the input \<^verbatim>\<open>// c\<close>, \<^verbatim>\<open>import "y";\<close> (two lines, both satisfy the
  predicate) \<^verbatim>\<open>findIndex\<close> gives \<open>-1\<close>, the body is the last line, and the error carries
  \<open>-1 + 0 = -1\<close>, while the offending line has index 1. (\<open>line_number_found\<close> above is
  the claim where the boundary is the index of a line.)
\<close>

theorem line_number_all_import_lines:
  "split_lines (str ''// c'' @ [LF] @ str ''import \"y\";'') = [str ''// c'', str ''import \"y\";''] \<and>
   bodyStart (str ''// c'' @ [LF] @ str ''import \"y\";'') = -1 \<and>
   bodyLines (str ''// c'' @ [LF] @ str ''import \"y\";'') = [str ''import \"y\";''] \<and>
   splitSource (str ''// c'' @ [LF] @ str ''import \"y\";'') = Inl (ImportInBodyError (-1))"
  by (simp add: eval_defs)

text \<open>
  C10: the guard sees a line as an import only if it starts with the seven code units
  of \<^verbatim>\<open>import \<close>. The lines \<^verbatim>\<open>import{f} from "x";\<close> and \<^verbatim>\<open>import"x";\<close> do not; as
  the first line, or after a statement, they are in the body region, no error is
  raised, and \<^verbatim>\<open>transform\<close> returns them inside the wrapper.
\<close>

theorem import_without_space:
  "(isImportStatementStart line \<longleftrightarrow> (\<exists>rest. line = str ''import '' @ rest)) \<and>
   \<not> isImportStatementStart (str ''import{f} from \"x\";'') \<and>
   \<not> isImportStatementStart (str ''import\"x\";'') \<and>
   splitSource (str ''import{f} from \"x\";'') = Inr ([], str ''import{f} from \"x\";'') \<and>
   splitSource (str ''g();'' @ [LF] @ str ''import\"x\";'') =
     Inr ([], str ''g();'' @ [LF] @ str ''import\"x\";'') \<and>
   (fileFilter fileId \<longrightarrow>
      transform fileFilter (str ''import{f} from \"x\";'') fileId =
        Inr (Some ([LF] @ wrapInIife (str ''import{f} from \"x\";''))) \<and>
      transform fileFilter (str ''g();'' @ [LF] @ str ''import\"x\";'') fileId =
        Inr (Some ([LF] @ wrapInIife (str ''g();'' @ [LF] @ str ''import\"x\";''))))"
proof -
  have a: "isImportStatementStart line \<longleftrightarrow> (\<exists>rest. line = str ''import '' @ rest)"
    by (simp add: isImportStatementStart_def startsWith_iff)
  have b: "\<not> isImportStatementStart (str ''import{f} from \"x\";'')"
    and c: "\<not> isImportStatementStart (str ''import\"x\";'')"
    by (simp_all add: isImportStatementStart_def str_def)
  have d: "splitSource (str ''import{f} from \"x\";'') = Inr ([], str ''import{f} from \"x\";'')"
    by (simp add: eval_defs)
  have e: "splitSource (str ''g();'' @ [LF] @ str ''import\"x\";'') =
     Inr ([], str ''g();'' @ [LF] @ str ''import\"x\";'')"
    by (simp add: eval_defs)
  from a b c d e show ?thesis
    by (simp add: transform_def)
qed

theorem import_without_space_witness:
  "(\<lambda>_. True) (str ''a.js'') \<and>
   transform (\<lambda>_. True) (str ''import{f} from \"x\";'') (str ''a.js'') =
     Inr (Some ([LF] @ wrapInIife (str ''import{f} from \"x\";'')))"
  using import_without_space [of "[]" "\<lambda>_. True" "str ''a.js''"] by simp

section \<open>The wrapper\<close>

text \<open>
  C5: for every text, \<^verbatim>\<open>wrapInIife\<close> gives the opening \<^verbatim>\<open>(function() {\<close> and a newline,
  then the text itself, then a newline, the closing \<^verbatim>\<open>})();\<close> and a newline: 21 code
  units around the text, 14 of them before it. It is injective.
\<close>

theorem wrapInIife_form:
  "wrapInIife code = str ''(function() {'' @ [LF] @ code @ [LF] @ str ''})();'' @ [LF] \<and>
   length (wrapInIife code) = length code + 21 \<and>
   take 14 (wrapInIife code) = str ''(function() {'' @ [LF] \<and>
   drop 14 (wrapInIife code) = code @ [LF] @ str ''})();'' @ [LF] \<and>
   inj wrapInIife"
proof -
  have "inj wrapInIife"
    by (rule injI) (simp add: wrapInIife_def)
  then show ?thesis
    by (simp add: wrapInIife_def str_def)
qed

section \<open>The entry point\<close>

text \<open>
  C7: when the filter rejects the file identifier, \<^verbatim>\<open>transform\<close> returns \<^verbatim>\<open>undefined\<close>
  for every text: not a text, and not the error of the guard, also for a text on which
  \<^verbatim>\<open>splitSource\<close> raises.
\<close>

theorem transform_not_eligible:
  assumes "\<not> fileFilter fileId"
  shows "transform fileFilter code fileId = Inr None \<and>
         (\<forall>text. transform fileFilter code fileId \<noteq> Inr (Some text)) \<and>
         (\<forall>e. transform fileFilter code fileId \<noteq> Inl e)"
  using assms by (simp add: transform_def)

theorem transform_not_eligible_witness:
  "\<not> (\<lambda>_. False) (str ''a.js'') \<and>
   splitSource (str ''g();'' @ [LF] @ str ''import { f } from \"x\";'') = Inl (ImportInBodyError 1) \<and>
   transform (\<lambda>_. False) (str ''g();'' @ [LF] @ str ''import { f } from \"x\";'') (str ''a.js'') = Inr None"
proof -
  have "\<not> (\<lambda>_::jsstring. False) (str ''a.js'')" by simp
  from transform_not_eligible [OF this] line_number_scenario_B show ?thesis by simp
qed

text \<open>
  C8: the empty input is one empty line; \<^verbatim>\<open>splitSource\<close> returns the empty import
  region and the empty body region for it, and \<^verbatim>\<open>transform\<close> returns a newline and
  the wrapper around the empty body. The splitter and the wrapper give a result for
  every input: the import lines and the body lines always partition the lines of the
  input, the wrapper always returns a text, and \<^verbatim>\<open>splitSource\<close> returns a pair for
  every input no line of which starts with \<^verbatim>\<open>import \<close> (the error of the guard is
  its one failure).
\<close>

theorem empty_input:
  "split_lines [] = [[]] \<and>
   splitSource [] = Inr ([], []) \<and>
   wrapInIife [] = str ''(function() {'' @ [LF] @ [LF] @ str ''})();'' @ [LF] \<and>
   (fileFilter fileId \<longrightarrow>
      transform fileFilter [] fileId = Inr (Some ([LF] @ wrapInIife []))) \<and>
   ((\<forall>l\<in>set (split_lines code). \<not> isImportStatementStart l) \<longrightarrow>
      (\<exists>imports body. splitSource code = Inr (imports, body))) \<and>
   importLines code @ bodyLines code = split_lines code \<and>
   wrapInIife code \<noteq> []"
proof -
  have a: "splitSource [] = Inr ([], [])"
    by (simp add: eval_defs)
  have b: "transform fileFilter [] fileId = Inr (Some ([LF] @ wrapInIife []))" if "fileFilter fileId"
    using that a by (simp add: transform_def)
  have c: "\<exists>imports body. splitSource code = Inr (imports, body)"
    if "\<forall>l\<in>set (split_lines code). \<not> isImportStatementStart l"
  proof -
    have "set (bodyLines code) \<subseteq> set (split_lines code)"
      by (simp add: bodyLines_def set_slice_from)
    with that have "\<not> some isImportStatementStart (bodyLines code)"
      by (auto simp: some_def list_ex_iff)
    then show ?thesis by (simp add: splitSource_unfold)
  qed
  have d: "wrapInIife code \<noteq> []"
    by (simp add: wrapInIife_def)
  from a b c d show ?thesis by (simp add: wrapInIife_def region_lines_partition)
qed

theorem empty_input_witness:
  "(\<lambda>_. True) (str ''a.js'') \<and>
   transform (\<lambda>_. True) [] (str ''a.js'') = Inr (Some ([LF] @ wrapInIife [])) \<and>
   list_all (\<lambda>l. \<not> isImportStatementStart l) (split_lines (str ''g();'')) \<and>
   (\<exists>imports body. splitSource (str ''g();'') = Inr (imports, body))"
proof -
  have a: "list_all (\<lambda>l. \<not> isImportStatementStart l) (split_lines (str ''g();''))"
    by (simp add: eval_defs)
  then have "\<forall>l\<in>set (split_lines (str ''g();'')). \<not> isImportStatementStart l"
    by (simp only: list_all_iff)
  with empty_input [of "\<lambda>_. True" "str ''a.js''" "str ''g();''"] a show ?thesis
    by blast
qed

end
